theory Spec2Isabelle
  imports Complex_Main
begin

section \<open>Exceptions\<close>

text \<open>
  A Python call either returns a value or raises. The result of every modelled function
  that can raise is a sum: \<open>Inl e\<close> is the exception \<open>e\<close> leaving the function,
  \<open>Inr v\<close> is the returned value.

  \<open>ValueError\<close> is what \<open>float\<close> and \<open>time.sleep\<close> raise, \<open>NotImplementedError\<close>
  is raised by the four scrapers, \<open>TimeoutException\<close> and \<open>NoSuchElementException\<close>
  are the two Selenium exceptions that \<open>selenium_utils.py\<close> catches, and
  \<open>WebDriverException\<close> stands for every other exception of the driver.
  \<open>InvalidQuery\<close> and \<open>UnknownOta\<close> are the error names of the specification; no
  function of the repository raises them.
\<close>

datatype exn =
    ValueError
  | NotImplementedError string
  | TimeoutException
  | NoSuchElementException
  | WebDriverException string
  | InvalidQuery
  | UnknownOta

section \<open>\<open>scrapers/common/data_formatter.py\<close>\<close>

subsection \<open>\<open>format_scraped_data\<close>\<close>

text \<open>
  The dictionary that \<open>format_scraped_data\<close> builds has a fixed set of seven keys, so
  it is a record. The list \<open>rates\<close> and the optional \<open>raw_data\<close> are passed through
  without being looked at, so their element types are parameters.
\<close>

record ('r, 'd) scraped_data =
  ota_name :: string
  hotel_name :: string
  check_in_date :: string
  check_out_date :: string
  scraped_at :: string
  rates :: "'r list"
  raw_data :: "'d option"

text \<open>
  \<open>datetime.now().isoformat()\<close> reads the clock of the machine. Its result is the first
  argument \<open>now_iso\<close> of the model; the other six are the arguments of the source, in
  the source's order. The body is a single \<open>return\<close> of a dictionary literal: there is no
  \<open>raise\<close>, no test of \<open>ota_name\<close> and no use of \<open>WHITELIST_OTAS\<close>.
\<close>

definition format_scraped_data ::
  "string \<Rightarrow> string \<Rightarrow> string \<Rightarrow> string \<Rightarrow> string \<Rightarrow> 'r list \<Rightarrow> 'd option
    \<Rightarrow> exn + ('r, 'd) scraped_data" where
  "format_scraped_data now_iso ota h check_in check_out rs raw =
     Inr \<lparr> ota_name = ota,
           hotel_name = h,
           check_in_date = check_in,
           check_out_date = check_out,
           scraped_at = now_iso,
           rates = rs,
           raw_data = raw \<rparr>"

subsection \<open>Python strings\<close>

text \<open>
  A Python string is a sequence of code points. The model is \<open>string\<close>, with each
  \<open>char\<close> read as one code point in the range 0..255.

  \<open>py_isspace\<close> is \<open>str.isspace\<close> on one character, the test \<open>str.strip()\<close>
  uses: in the range 0..255 the whitespace code points are 9 to 13, 28 to 32, 133 and 160.
  \<open>str_replace s old new\<close> is \<open>s.replace(old, new)\<close> for a one-character \<open>old\<close>.
\<close>

definition py_isspace :: "char \<Rightarrow> bool" where
  "py_isspace c = (c \<in> set [CHR 0x09, CHR 0x0A, CHR 0x0B, CHR 0x0C, CHR 0x0D,
                          CHR 0x1C, CHR 0x1D, CHR 0x1E, CHR 0x1F, CHR 0x20, CHR 0x85, CHR 0xA0])"

definition str_strip :: "string \<Rightarrow> string" where
  "str_strip s = rev (dropWhile py_isspace (rev (dropWhile py_isspace s)))"

definition str_replace :: "string \<Rightarrow> char \<Rightarrow> string \<Rightarrow> string" where
  "str_replace s old new = concat (map (\<lambda>c. if c = old then new else [c]) s)"

subsection \<open>The builtin \<open>float\<close> on a string\<close>

text \<open>
  \<open>float(s)\<close> is CPython's \<open>PyFloat_FromString\<close>. Its steps, each a definition below
  under the name of the C function:
  \<^item> \<open>_PyUnicode_TransformDecimalAndSpaceToASCII\<close>: an all-ASCII string is kept; otherwise
    a code point below 127 is kept, a whitespace code point becomes a blank, a decimal
    digit becomes its ASCII digit (there is none among 127..255), and the first other
    code point becomes a question mark that ends the string;
  \<^item> \<open>_Py_string_to_number_with_underscores\<close>: when there is an underscore, every
    underscore must stand between two digits, and the underscores are removed; a NUL
    character is an error;
  \<^item> \<open>float_from_string_inner\<close>: blanks (\<open>Py_ISSPACE\<close>: 9 to 13 and 32) are dropped at
    both ends, the empty string is an error, and the number must use up the whole rest;
  \<^item> \<open>_PyOS_ascii_strtod\<close>: \<open>_Py_dg_strtod\<close> reads an optional sign, digits with an
    optional point (at least one digit in all) and an optional exponent, which is given
    up when no digit follows the \<open>e\<close>; when it reads nothing, \<open>_Py_parse_inf_or_nan\<close>
    reads \<open>inf\<close>, \<open>infinity\<close> or \<open>nan\<close> in any case, with an optional sign.
  Every error is a \<open>ValueError\<close>.

  A finite result is kept as the sign and the exact magnitude that the decimal string
  denotes. CPython rounds that magnitude to the nearest binary64 number (to infinity when
  it is too large), which is also how a literal of Python source is read, so equal
  magnitudes stand for equal floats. A string of more than \<open>10^9\<close> digits, which
  \<open>_Py_dg_strtod\<close> refuses with the same \<open>ValueError\<close>, is outside the model.
\<close>

datatype pyfloat = Finite bool rat | Infinity bool | NaN

definition Py_ISSPACE :: "char \<Rightarrow> bool" where
  "Py_ISSPACE c = (c \<in> set [CHR 0x09, CHR 0x0A, CHR 0x0B, CHR 0x0C, CHR 0x0D, CHR 0x20])"

definition is_digit :: "char \<Rightarrow> bool" where
  "is_digit c = (c \<in> set ''0123456789'')"

definition digit_val :: "char \<Rightarrow> nat" where
  "digit_val c = of_char c - 48"

definition digits_val :: "string \<Rightarrow> nat" where
  "digits_val ds = foldl (\<lambda>a c. 10 * a + digit_val c) 0 ds"

fun transform_chars :: "string \<Rightarrow> string" where
  "transform_chars [] = []"
| "transform_chars (c # cs) =
     (if (of_char c :: nat) < 127 then c # transform_chars cs
      else if py_isspace c then CHR '' '' # transform_chars cs
      else [CHR ''?''])"

definition transform_decimal_and_space_to_ascii :: "string \<Rightarrow> string" where
  "transform_decimal_and_space_to_ascii s =
     (if list_all (\<lambda>c. (of_char c :: nat) < 128) s then s else transform_chars s)"

fun strip_underscores :: "char \<Rightarrow> string \<Rightarrow> string option" where
  "strip_underscores prev [] = (if prev = CHR ''_'' then None else Some [])"
| "strip_underscores prev (c # cs) =
     (if c = CHR 0x00 then None
      else if c = CHR ''_'' then
        (if is_digit prev then strip_underscores c cs else None)
      else if prev = CHR ''_'' \<and> \<not> is_digit c then None
      else map_option ((#) c) (strip_underscores c cs))"

fun parse_sign :: "string \<Rightarrow> bool \<times> string" where
  "parse_sign [] = (False, [])"
| "parse_sign (c # cs) =
     (if c = CHR ''-'' then (True, cs) else if c = CHR ''+'' then (False, cs) else (False, c # cs))"

definition pow10 :: "int \<Rightarrow> rat" where
  "pow10 e = (if 0 \<le> e then 10 ^ nat e else 1 / 10 ^ nat (- e))"

definition parse_exponent :: "string \<Rightarrow> int \<times> string" where
  "parse_exponent s =
     (case s of
        [] \<Rightarrow> (0, s)
      | c # cs \<Rightarrow>
          if c = CHR ''e'' \<or> c = CHR ''E'' then
            (let (esign, r) = parse_sign cs;
                 ds = takeWhile is_digit r
             in if ds = [] then (0, s)
                else ((if esign then - int (digits_val ds) else int (digits_val ds)),
                      dropWhile is_digit r))
          else (0, s))"

definition dg_strtod :: "string \<Rightarrow> (pyfloat \<times> string) option" where
  "dg_strtod s =
     (let (sign, s1) = parse_sign s;
          ip = takeWhile is_digit s1;
          r1 = dropWhile is_digit s1;
          (fp, r2) = (case r1 of
                        [] \<Rightarrow> ([], r1)
                      | c # cs \<Rightarrow> if c = CHR ''.''
                                  then (takeWhile is_digit cs, dropWhile is_digit cs)
                                  else ([], r1))
      in if ip = [] \<and> fp = [] then None
         else (let (e, r3) = parse_exponent r2
               in Some (Finite sign (of_nat (digits_val (ip @ fp)) * pow10 (e - int (length fp))),
                        r3)))"

definition lower :: "char \<Rightarrow> char" where
  "lower c = (if (of_char c :: nat) \<in> {65..90} then char_of (of_char c + (32::nat)) else c)"

definition case_insensitive_match :: "string \<Rightarrow> string \<Rightarrow> bool" where
  "case_insensitive_match s t = (map lower (take (length t) s) = t)"

definition parse_inf_or_nan :: "string \<Rightarrow> (pyfloat \<times> string) option" where
  "parse_inf_or_nan p =
     (let (negate, s) = parse_sign p
      in if case_insensitive_match s ''inf'' then
           (let s3 = drop 3 s
            in if case_insensitive_match s3 ''inity'' then Some (Infinity negate, drop 5 s3)
               else Some (Infinity negate, s3))
         else if case_insensitive_match s ''nan'' then Some (NaN, drop 3 s)
         else None)"

definition ascii_strtod :: "string \<Rightarrow> (pyfloat \<times> string) option" where
  "ascii_strtod nptr =
     (case dg_strtod nptr of
        Some r \<Rightarrow> Some r
      | None \<Rightarrow> parse_inf_or_nan nptr)"

definition float_from_string_inner :: "string \<Rightarrow> exn + pyfloat" where
  "float_from_string_inner s0 =
     (let s = dropWhile Py_ISSPACE s0
      in if s = [] then Inl ValueError
         else (let t = rev (dropWhile Py_ISSPACE (rev s))
               in case ascii_strtod t of
                    None \<Rightarrow> Inl ValueError
                  | Some (x, rest) \<Rightarrow> if rest = [] then Inr x else Inl ValueError))"

definition string_to_number_with_underscores :: "string \<Rightarrow> exn + pyfloat" where
  "string_to_number_with_underscores s =
     (if CHR ''_'' \<notin> set (takeWhile (\<lambda>c. c \<noteq> CHR 0x00) s) then float_from_string_inner s
      else (case strip_underscores (CHR 0x00) s of
              None \<Rightarrow> Inl ValueError
            | Some dup \<Rightarrow> float_from_string_inner dup))"

definition py_float :: "string \<Rightarrow> exn + pyfloat" where
  "py_float s = string_to_number_with_underscores (transform_decimal_and_space_to_ascii s)"

subsection \<open>\<open>normalize_price\<close>\<close>

text \<open>
  \<open>if not price_str\<close> is the test for the empty string. The \<open>except ValueError\<close>
  clause turns a \<open>ValueError\<close> of \<open>float\<close> into \<open>None\<close>; any other exception would
  leave the function.
\<close>

definition normalize_price :: "string \<Rightarrow> exn + pyfloat option" where
  "normalize_price price_str =
     (if price_str = [] then Inr None
      else (let cleaned = str_strip (str_replace (str_replace price_str (CHR ''$'') '''') (CHR '','') '''')
            in case py_float cleaned of
                 Inr x \<Rightarrow> Inr (Some x)
               | Inl ValueError \<Rightarrow> Inr None
               | Inl e \<Rightarrow> Inl e))"



text \<open>
  A raw entry as an adapter hands it over: a dictionary with the key \<open>price\<close>.
\<close>

record raw_entry =
  price :: string

section \<open>\<open>scrapers/common/rate_limiter.py\<close>\<close>

subsection \<open>The clock\<close>

text \<open>
  \<open>time.time()\<close> and \<open>time.sleep\<close> act on the clock of the machine, which is part of
  the state here: \<open>clock\<close> is the current time in seconds since the epoch, an ideal real
  number, and \<open>sleeps\<close> lists the durations of the calls of \<open>time.sleep\<close> made so far.
  \<open>time.sleep\<close> raises \<open>ValueError\<close> on a negative duration and otherwise moves the
  clock forward by the duration. \<open>elapse\<close> is time that passes for any other reason.
\<close>

record world =
  clock :: real
  sleeps :: "real list"

definition time_time :: "world \<Rightarrow> real" where
  "time_time w = clock w"

definition time_sleep :: "real \<Rightarrow> world \<Rightarrow> exn + world" where
  "time_sleep secs w =
     (if secs < 0 then Inl ValueError
      else Inr (w\<lparr>clock := clock w + secs, sleeps := sleeps w @ [secs]\<rparr>))"

definition elapse :: "real \<Rightarrow> world \<Rightarrow> world" where
  "elapse dt w = w\<lparr>clock := clock w + dt\<rparr>"

subsection \<open>\<open>RateLimiter\<close>\<close>

record RateLimiter =
  min_delay :: real
  last_request_time :: real

text \<open>\<open>__init__\<close>; the default of \<open>min_delay\<close> is \<open>1.0\<close>.\<close>

definition RateLimiter_init :: "real \<Rightarrow> RateLimiter" where
  "RateLimiter_init d = \<lparr> min_delay = d, last_request_time = 0 \<rparr>"

text \<open>
  \<open>wait\<close> reads the clock, sleeps when less than \<open>min_delay\<close> has passed since
  \<open>last_request_time\<close>, reads the clock again and stores that reading. The argument
  \<open>late\<close> is the time that passes between the two readings beyond the requested sleep:
  the sleep may last longer than asked, and the statements take time.
\<close>

definition wait :: "real \<Rightarrow> RateLimiter \<Rightarrow> world \<Rightarrow> exn + (RateLimiter \<times> world)" where
  "wait late self w =
     (let current_time = time_time w;
          time_since_last = current_time - last_request_time self
      in case (if time_since_last < min_delay self
               then (let sleep_time = min_delay self - time_since_last
                     in time_sleep sleep_time w)
               else Inr w) of
           Inl e \<Rightarrow> Inl e
         | Inr w1 \<Rightarrow>
             (let w2 = elapse late w1
              in Inr (self\<lparr>last_request_time := time_time w2\<rparr>, w2)))"

text \<open>
  \<open>__call__\<close> returns \<open>wrapper\<close>, which calls \<open>wait\<close> and then the decorated function.
  The decorated function acts on the world and returns or raises; an exception of
  \<open>wait\<close> leaves the wrapper before the function is called.
\<close>

definition wrapper ::
  "real \<Rightarrow> RateLimiter \<Rightarrow> ('a \<Rightarrow> world \<Rightarrow> (exn + 'b) \<times> world) \<Rightarrow> 'a \<Rightarrow> world
    \<Rightarrow> (exn + 'b) \<times> RateLimiter \<times> world" where
  "wrapper late self func args w =
     (case wait late self w of
        Inl e \<Rightarrow> (Inl e, self, w)
      | Inr (self1, w1) \<Rightarrow> (case func args w1 of (r, w2) \<Rightarrow> (r, self1, w2)))"

text \<open>
  A sequence of gated calls on one limiter. Each call is given by two durations: \<open>late\<close>
  for its \<open>wait\<close>, and \<open>busy\<close>, the time from the start of the gated function to the
  next call of the wrapper. The gated function is \<open>probe\<close>, which returns the clock
  reading at its start: the effective start time of the call. No time passes between the
  last statement of \<open>wait\<close> and the start of the gated function.
\<close>

definition probe :: "real \<Rightarrow> unit \<Rightarrow> world \<Rightarrow> (exn + real) \<times> world" where
  "probe busy u w = (Inr (time_time w), elapse busy w)"

fun gated_calls ::
  "(real \<times> real) list \<Rightarrow> RateLimiter \<Rightarrow> world \<Rightarrow> (exn + real) list \<times> RateLimiter \<times> world" where
  "gated_calls [] self w = ([], self, w)"
| "gated_calls ((late, busy) # rest) self w =
     (case wrapper late self (probe busy) () w of
        (r, self1, w1) \<Rightarrow>
          (case gated_calls rest self1 w1 of
             (rs, self2, w2) \<Rightarrow> (r # rs, self2, w2)))"

text \<open>
  \<open>spaced d base ts\<close>: the times \<open>ts\<close> are at least \<open>d\<close> apart, counted from
  \<open>base\<close>. The \<open>i\<close>-th of them (from 0) is at least \<open>base + (i + 1) * d\<close>, and any
  two of them with \<open>i \<le> j\<close> are at least \<open>(j - i) * d\<close> apart.
\<close>

definition spaced :: "real \<Rightarrow> real \<Rightarrow> real list \<Rightarrow> bool" where
  "spaced d base ts \<longleftrightarrow>
     (\<forall>i<length ts. base + real (Suc i) * d \<le> ts ! i)
   \<and> (\<forall>i j. i \<le> j \<and> j < length ts \<longrightarrow> real (j - i) * d \<le> ts ! j - ts ! i)"

section \<open>\<open>scrapers/common/selenium_utils.py\<close>\<close>

text \<open>
  The driver is Selenium's. What the four functions need of it are the outcomes of four
  calls, each a returned value or an exception:
  \<^item> \<open>until_presence d by value timeout\<close> is
    \<open>WebDriverWait(d, timeout).until(EC.presence_of_element_located((by, value)))\<close>,
    which raises \<open>TimeoutException\<close> when the timeout expires without the element;
  \<^item> \<open>until_clickable\<close> is the same with \<open>EC.element_to_be_clickable\<close>;
  \<^item> \<open>find_element d by value\<close> raises \<open>NoSuchElementException\<close> when the element is
    absent;
  \<^item> \<open>find_elements d by value\<close> returns the list of matches, empty when there is none.
  A locator strategy \<open>By\<close> is a string in Selenium.
\<close>

type_synonym By = string

record 'e web_driver =
  until_presence :: "By \<Rightarrow> string \<Rightarrow> int \<Rightarrow> exn + 'e"
  until_clickable :: "By \<Rightarrow> string \<Rightarrow> int \<Rightarrow> exn + 'e"
  find_element :: "By \<Rightarrow> string \<Rightarrow> exn + 'e"
  find_elements :: "By \<Rightarrow> string \<Rightarrow> exn + 'e list"

definition wait_for_element :: "'e web_driver \<Rightarrow> By \<Rightarrow> string \<Rightarrow> int \<Rightarrow> exn + 'e option" where
  "wait_for_element driver strategy value timeout =
     (case until_presence driver strategy value timeout of
        Inr element \<Rightarrow> Inr (Some element)
      | Inl TimeoutException \<Rightarrow> Inr None
      | Inl e \<Rightarrow> Inl e)"

definition wait_for_clickable :: "'e web_driver \<Rightarrow> By \<Rightarrow> string \<Rightarrow> int \<Rightarrow> exn + 'e option" where
  "wait_for_clickable driver strategy value timeout =
     (case until_clickable driver strategy value timeout of
        Inr element \<Rightarrow> Inr (Some element)
      | Inl TimeoutException \<Rightarrow> Inr None
      | Inl e \<Rightarrow> Inl e)"

definition safe_find_element :: "'e web_driver \<Rightarrow> By \<Rightarrow> string \<Rightarrow> exn + 'e option" where
  "safe_find_element driver strategy value =
     (case find_element driver strategy value of
        Inr element \<Rightarrow> Inr (Some element)
      | Inl NoSuchElementException \<Rightarrow> Inr None
      | Inl e \<Rightarrow> Inl e)"

definition safe_find_elements :: "'e web_driver \<Rightarrow> By \<Rightarrow> string \<Rightarrow> exn + 'e list" where
  "safe_find_elements driver strategy value =
     (case find_elements driver strategy value of
        Inr elements \<Rightarrow> Inr elements
      | Inl NoSuchElementException \<Rightarrow> Inr []
      | Inl e \<Rightarrow> Inl e)"

text \<open>
  Which exceptions are errors of a session that cannot go on. \<open>TimeoutException\<close> and
  \<open>NoSuchElementException\<close> are not: a command that does not finish in time and an
  element that is not there are conditions of a live session. \<open>WebDriverException\<close>,
  which stands for the remaining exceptions of the driver, is counted as one.
\<close>

fun session_error :: "exn \<Rightarrow> bool" where
  "session_error (WebDriverException msg) = True"
| "session_error e = False"

text \<open>
  A driver whose session is alive and whose page does not answer in time: Selenium ends
  every command, \<open>find_element\<close> and \<open>find_elements\<close> included, with
  \<open>TimeoutException\<close>.
\<close>

definition unresponsive_page :: "unit web_driver" where
  "unresponsive_page =
     \<lparr> until_presence = (\<lambda>strategy value timeout. Inl TimeoutException),
       until_clickable = (\<lambda>strategy value timeout. Inl TimeoutException),
       find_element = (\<lambda>strategy value. Inl TimeoutException),
       find_elements = (\<lambda>strategy value. Inl TimeoutException) \<rparr>"

section \<open>The scrapers\<close>

text \<open>
  \<open>booking/scraper.py\<close>, \<open>expedia/scraper.py\<close>, \<open>agoda/scraper.py\<close> and
  \<open>trip/scraper.py\<close> each define one class with one method \<open>scrape_rates\<close>, whose body
  is a single \<open>raise NotImplementedError\<close>. The state \<open>w\<close> stands for everything
  outside the call, browser sessions and the network included; the method returns it as
  it found it. The default of \<open>adults\<close> is 2.
\<close>

definition BookingScraper_scrape_rates ::
  "string \<Rightarrow> string \<Rightarrow> string \<Rightarrow> int \<Rightarrow> 'w \<Rightarrow> (exn + 'r) \<times> 'w" where
  "BookingScraper_scrape_rates h check_in check_out adults w =
     (Inl (NotImplementedError ''Booking.com scraper not yet implemented''), w)"

definition ExpediaScraper_scrape_rates ::
  "string \<Rightarrow> string \<Rightarrow> string \<Rightarrow> int \<Rightarrow> 'w \<Rightarrow> (exn + 'r) \<times> 'w" where
  "ExpediaScraper_scrape_rates h check_in check_out adults w =
     (Inl (NotImplementedError ''Expedia scraper not yet implemented''), w)"

definition AgodaScraper_scrape_rates ::
  "string \<Rightarrow> string \<Rightarrow> string \<Rightarrow> int \<Rightarrow> 'w \<Rightarrow> (exn + 'r) \<times> 'w" where
  "AgodaScraper_scrape_rates h check_in check_out adults w =
     (Inl (NotImplementedError ''Agoda scraper not yet implemented''), w)"

definition TripScraper_scrape_rates ::
  "string \<Rightarrow> string \<Rightarrow> string \<Rightarrow> int \<Rightarrow> 'w \<Rightarrow> (exn + 'r) \<times> 'w" where
  "TripScraper_scrape_rates h check_in check_out adults w =
     (Inl (NotImplementedError ''Trip.com scraper not yet implemented''), w)"

text \<open>The call \<open>scraper.scrape_rates(...)\<close> is dispatched on the class of the scraper.\<close>

datatype scraper = BookingScraper | ExpediaScraper | AgodaScraper | TripScraper

fun scrape_rates ::
  "scraper \<Rightarrow> string \<Rightarrow> string \<Rightarrow> string \<Rightarrow> int \<Rightarrow> 'w \<Rightarrow> (exn + 'r) \<times> 'w" where
  "scrape_rates BookingScraper = BookingScraper_scrape_rates"
| "scrape_rates ExpediaScraper = ExpediaScraper_scrape_rates"
| "scrape_rates AgodaScraper = AgodaScraper_scrape_rates"
| "scrape_rates TripScraper = TripScraper_scrape_rates"

section \<open>Properties of \<open>format_scraped_data\<close>\<close>

text \<open>
  C1, as stated: for every \<open>ota_name\<close> outside the whitelist, the empty string included,
  \<open>format_scraped_data\<close> fails with \<open>UnknownOta\<close> instead of returning a record.
  This is false on the code: called with the empty string as \<open>ota_name\<close>, the function
  returns a record whose \<open>ota_name\<close> is the empty string.
\<close>

theorem format_scraped_data_empty_ota_returns:
  "format_scraped_data ''2025-06-01T12:00:00'' '''' ''Grand Hotel'' ''2025-06-01'' ''2025-06-03''
      ([] :: unit list) (None :: unit option)
     = Inr \<lparr> ota_name = '''', hotel_name = ''Grand Hotel'', check_in_date = ''2025-06-01'',
             check_out_date = ''2025-06-03'', scraped_at = ''2025-06-01T12:00:00'',
             rates = [], raw_data = None \<rparr>
   \<and> format_scraped_data ''2025-06-01T12:00:00'' '''' ''Grand Hotel'' ''2025-06-01'' ''2025-06-03''
      ([] :: unit list) (None :: unit option)
     \<noteq> Inl UnknownOta"
  by (simp add: format_scraped_data_def)

text \<open>
  C1, amended: for every string \<open>ota_name\<close>, whether it is in the whitelist or not,
  \<open>format_scraped_data\<close> returns a record, the \<open>ota_name\<close> of that record is the
  argument unchanged, and no exception (so no \<open>UnknownOta\<close>) is raised.
\<close>

theorem format_scraped_data_accepts_every_ota:
  "\<exists>r. format_scraped_data now_iso ota h check_in check_out rs raw = Inr r \<and> ota_name r = ota"
  by (simp add: format_scraped_data_def)

text \<open>
  C7: two calls of \<open>format_scraped_data\<close> with the same arguments, made at two moments
  \<open>t1\<close> and \<open>t2\<close>, both return, and the two records are equal once \<open>scraped_at\<close> is
  set to a common value: they agree on every field other than \<open>scraped_at\<close>.
\<close>

theorem format_scraped_data_deterministic_up_to_timestamp:
  "\<exists>r1 r2. format_scraped_data t1 ota h check_in check_out rs raw = Inr r1
         \<and> format_scraped_data t2 ota h check_in check_out rs raw = Inr r2
         \<and> r1\<lparr>scraped_at := t\<rparr> = r2\<lparr>scraped_at := t\<rparr>
         \<and> ota_name r1 = ota_name r2 \<and> hotel_name r1 = hotel_name r2
         \<and> check_in_date r1 = check_in_date r2 \<and> check_out_date r1 = check_out_date r2
         \<and> rates r1 = rates r2 \<and> raw_data r1 = raw_data r2"
  by (simp add: format_scraped_data_def)

text \<open>
  C8: the record returned by \<open>format_scraped_data\<close> carries the \<open>hotel_name\<close>,
  \<open>check_in\<close> and \<open>check_out\<close> arguments unchanged in its \<open>hotel_name\<close>,
  \<open>check_in_date\<close> and \<open>check_out_date\<close> fields, whatever the rates and the raw data
  are.
\<close>

theorem format_scraped_data_copies_query_verbatim:
  "\<exists>r. format_scraped_data now_iso ota h check_in check_out rs raw = Inr r
       \<and> hotel_name r = h \<and> check_in_date r = check_in \<and> check_out_date r = check_out"
  by (simp add: format_scraped_data_def)

section \<open>Properties of \<open>normalize_price\<close>\<close>

subsection \<open>Exceptions of \<open>float\<close>\<close>

text \<open>
  \<open>float\<close> on a string raises nothing but \<open>ValueError\<close>, which is the exception
  that \<open>normalize_price\<close> catches; so \<open>normalize_price\<close> returns on every string.
\<close>

lemma float_from_string_inner_raises:
  "float_from_string_inner s = Inl e \<Longrightarrow> e = ValueError"
  by (auto simp: float_from_string_inner_def Let_def split: if_splits option.splits prod.splits)

lemma string_to_number_with_underscores_raises:
  "string_to_number_with_underscores s = Inl e \<Longrightarrow> e = ValueError"
  by (auto simp: string_to_number_with_underscores_def
      split: if_splits option.splits dest: float_from_string_inner_raises)

lemma py_float_raises: "py_float s = Inl e \<Longrightarrow> e = ValueError"
  by (simp add: py_float_def string_to_number_with_underscores_raises)

lemma py_float_empty: "py_float [] = Inl ValueError"
  by (simp add: py_float_def transform_decimal_and_space_to_ascii_def
      string_to_number_with_underscores_def float_from_string_inner_def)

lemma normalize_price_total: "\<exists>r. normalize_price s = Inr r"
proof (cases "s = []")
  case True
  then show ?thesis by (simp add: normalize_price_def)
next
  case False
  let ?c = "str_strip (str_replace (str_replace s (CHR ''$'') '''') (CHR '','') '''')"
  show ?thesis
  proof (cases "py_float ?c")
    case (Inl e)
    then have "e = ValueError" by (rule py_float_raises)
    with Inl False show ?thesis by (simp add: normalize_price_def)
  next
    case (Inr x)
    with False show ?thesis by (simp add: normalize_price_def)
  qed
qed

lemma str_replace_empty: "str_replace s c [] = filter (\<lambda>x. x \<noteq> c) s"
  by (induction s) (simp_all add: str_replace_def)

lemma str_strip_empty: "str_strip [] = []"
  by (simp add: str_strip_def)

lemma normalize_price_filter:
  "normalize_price s = normalize_price (filter (\<lambda>c. c \<noteq> CHR ''$'' \<and> c \<noteq> CHR '','') s)"
proof -
  let ?f = "filter (\<lambda>c. c \<noteq> CHR ''$'' \<and> c \<noteq> CHR '','')"
  have cl: "str_replace (str_replace t (CHR ''$'') '''') (CHR '','') '''' = ?f t" for t
    by (simp add: str_replace_empty conj_commute)
  have idem: "?f (?f s) = ?f s" by simp
  show ?thesis
  proof (cases "?f s = []")
    case True
    then have "s = [] \<or> normalize_price s = Inr None"
      by (simp add: normalize_price_def cl str_strip_empty py_float_empty del: filter_False)
    with True show ?thesis by (auto simp: normalize_price_def)
  next
    case False
    then have "s \<noteq> []" by auto
    with False show ?thesis
      unfolding normalize_price_def cl idem by simp
  qed
qed

subsection \<open>Evaluation on given strings\<close>

lemmas price_eval = normalize_price_def str_replace_def str_strip_def py_isspace_def py_float_def
    transform_decimal_and_space_to_ascii_def string_to_number_with_underscores_def
    float_from_string_inner_def Py_ISSPACE_def ascii_strtod_def dg_strtod_def is_digit_def
    parse_exponent_def digits_val_def digit_val_def pow10_def parse_inf_or_nan_def
    case_insensitive_match_def lower_def

lemma price_1: "normalize_price ''$1,234.56'' = Inr (Some (Finite False 1234.56))"
  by (simp add: price_eval)
lemma price_2: "normalize_price ''1234.56'' = Inr (Some (Finite False 1234.56))"
  by (simp add: price_eval)
lemma price_3: "normalize_price ''  42 '' = Inr (Some (Finite False 42))"
  by (simp add: price_eval)
lemma price_4: "normalize_price '''' = Inr None"
  by (simp add: price_eval)
lemma price_5: "normalize_price ''N/A'' = Inr None"
  by (simp add: price_eval)
lemma price_6: "normalize_price ''--'' = Inr None"
  by (simp add: price_eval)
lemma price_7: "normalize_price ''12,34'' = Inr (Some (Finite False 1234))"
  by (simp add: price_eval)
lemma price_8: "normalize_price ''$$5'' = Inr (Some (Finite False 5))"
  by (simp add: price_eval)
lemma price_9: "normalize_price ''1e3'' = Inr (Some (Finite False 1000))"
  by (simp add: price_eval)
lemma price_10: "normalize_price ''$100'' = Inr (Some (Finite False 100))"
  by (simp add: price_eval)
lemma price_11: "normalize_price ''bad'' = Inr None"
  by (simp add: price_eval)
lemma price_12: "normalize_price ''$50'' = Inr (Some (Finite False 50))"
  by (simp add: price_eval)

text \<open>
  C4: \<open>normalize_price\<close> maps \<open>"$1,234.56"\<close> and \<open>"1234.56"\<close> to 1234.56 and
  \<open>"  42 "\<close> to 42.0; it maps the empty string, \<open>"N/A"\<close> and \<open>"--"\<close> to \<open>None\<close>; and
  on every string it returns a float or \<open>None\<close>: no exception leaves it.
\<close>

theorem normalize_price_parses_or_null:
  "normalize_price ''$1,234.56'' = Inr (Some (Finite False 1234.56))
   \<and> normalize_price ''1234.56'' = Inr (Some (Finite False 1234.56))
   \<and> normalize_price ''  42 '' = Inr (Some (Finite False 42.0))
   \<and> normalize_price '''' = Inr None
   \<and> normalize_price ''N/A'' = Inr None
   \<and> normalize_price ''--'' = Inr None
   \<and> (\<exists>r. normalize_price s = Inr r)"
  using price_1 price_2 price_3 price_4 price_5 price_6 normalize_price_total [of s]
  by simp

text \<open>
  C9: \<open>normalize_price\<close> deletes every dollar sign and every comma wherever they stand,
  so its result is the one it gives on the string without them; in particular it returns a
  number, not \<open>None\<close>, on \<open>"12,34"\<close> (1234.0), on \<open>"$$5"\<close> (5.0) and on \<open>"1e3"\<close>
  (1000.0), none of which is a well-formed price.
\<close>

theorem normalize_price_accepts_malformed:
  "normalize_price s = normalize_price (filter (\<lambda>c. c \<noteq> CHR ''$'' \<and> c \<noteq> CHR '','') s)
   \<and> normalize_price ''12,34'' = Inr (Some (Finite False 1234.0))
   \<and> normalize_price ''$$5'' = Inr (Some (Finite False 5.0))
   \<and> normalize_price ''1e3'' = Inr (Some (Finite False 1000.0))"
  using price_7 price_8 price_9 normalize_price_filter [of s]
  by simp

text \<open>
  C5: when the prices of the raw entries \<open>[{price: "$100"}, {price: "bad"},
  {price: "$50"}]\<close> are parsed with \<open>normalize_price\<close> and the results are handed to
  \<open>format_scraped_data\<close> as its rates, the \<open>rates\<close> of the record have length 3 and
  are, in the order of the entries, 100.0, \<open>None\<close> and 50.0. For any list of entries the
  rates are as many as the entries, each in its place: a price that does not parse gives
  \<open>None\<close> there and the entry is not dropped.
\<close>

theorem unparseable_price_keeps_its_place:
  "(\<exists>r. format_scraped_data now_iso ota h check_in check_out
           (map (\<lambda>e. normalize_price (price e))
              [\<lparr>price = ''$100''\<rparr>, \<lparr>price = ''bad''\<rparr>, \<lparr>price = ''$50''\<rparr>]) raw = Inr r
        \<and> length (rates r) = 3
        \<and> rates r = [Inr (Some (Finite False 100.0)), Inr None, Inr (Some (Finite False 50.0))])
   \<and> (\<exists>r. format_scraped_data now_iso ota h check_in check_out
           (map (\<lambda>e. normalize_price (price e)) es) raw = Inr r
        \<and> length (rates r) = length es
        \<and> rates r = map (\<lambda>e. normalize_price (price e)) es)"
  by (simp add: format_scraped_data_def price_10 price_11 price_12)

section \<open>Properties of the rate limiter\<close>

lemma wait_returns:
  assumes "0 \<le> late"
  shows "\<exists>self1 w1. wait late self w = Inr (self1, w1)
           \<and> min_delay self1 = min_delay self
           \<and> last_request_time self1 = clock w1
           \<and> last_request_time self + min_delay self \<le> clock w1"
  using assms
  by (auto simp: wait_def time_time_def time_sleep_def elapse_def Let_def)

lemma wrapper_probe:
  assumes "0 \<le> late"
  shows "\<exists>t self1 w1. wrapper late self (probe busy) () w = (Inr t, self1, w1)
           \<and> min_delay self1 = min_delay self
           \<and> last_request_time self1 = t
           \<and> last_request_time self + min_delay self \<le> t"
proof -
  from wait_returns [OF assms, of self w] obtain self1 w1 where
    w: "wait late self w = Inr (self1, w1)" and
    m: "min_delay self1 = min_delay self" and
    l: "last_request_time self1 = clock w1" and
    g: "last_request_time self + min_delay self \<le> clock w1"
    by blast
  show ?thesis
    by (simp add: wrapper_def w probe_def time_time_def m l g)
qed

lemma spaced_Cons:
  assumes h: "base + d \<le> t" and tl: "spaced d t ts"
  shows "spaced d base (t # ts)"
proof -
  have a: "base + real (Suc i) * d \<le> (t # ts) ! i" if "i < length (t # ts)" for i
  proof (cases i)
    case 0
    with h show ?thesis by simp
  next
    case (Suc k)
    with that have "k < length ts" by simp
    with tl have "t + real (Suc k) * d \<le> ts ! k" by (simp add: spaced_def)
    with h Suc show ?thesis by (simp add: algebra_simps)
  qed
  have b: "real (j - i) * d \<le> (t # ts) ! j - (t # ts) ! i"
    if "i \<le> j" and "j < length (t # ts)" for i j
  proof (cases i)
    case i0: 0
    show ?thesis
    proof (cases j)
      case 0
      with i0 show ?thesis by simp
    next
      case (Suc k)
      with that have "k < length ts" by simp
      with tl have "t + real (Suc k) * d \<le> ts ! k" by (simp add: spaced_def)
      with i0 Suc show ?thesis by (simp add: algebra_simps)
    qed
  next
    case (Suc i')
    with that obtain j' where j: "j = Suc j'" and le: "i' \<le> j'" and lt: "j' < length ts"
      by (cases j) auto
    from tl le lt have "real (j' - i') * d \<le> ts ! j' - ts ! i'" by (simp add: spaced_def)
    with Suc j show ?thesis by simp
  qed
  show ?thesis unfolding spaced_def using a b by blast
qed

lemma gated_calls_spaced:
  assumes "\<forall>(late, busy) \<in> set sched. 0 \<le> late"
  shows "\<exists>ts self' w'. gated_calls sched self w = (map Inr ts, self', w')
           \<and> length ts = length sched
           \<and> spaced (min_delay self) (last_request_time self) ts"
  using assms
proof (induction sched arbitrary: self w)
  case Nil
  show ?case by (simp add: spaced_def)
next
  case (Cons x sched)
  obtain late busy where x: "x = (late, busy)" by (cases x)
  with Cons.prems have late: "0 \<le> late" and rest: "\<forall>(late, busy) \<in> set sched. 0 \<le> late"
    by auto
  from wrapper_probe [OF late, of self busy w] obtain t self1 w1 where
    wr: "wrapper late self (probe busy) () w = (Inr t, self1, w1)" and
    m: "min_delay self1 = min_delay self" and
    l: "last_request_time self1 = t" and
    g: "last_request_time self + min_delay self \<le> t"
    by blast
  from Cons.IH [OF rest, of self1 w1] obtain ts self' w' where
    gc: "gated_calls sched self1 w1 = (map Inr ts, self', w')" and
    len: "length ts = length sched" and
    sp: "spaced (min_delay self1) (last_request_time self1) ts"
    by blast
  from sp m l have "spaced (min_delay self) t ts" by simp
  with g have "spaced (min_delay self) (last_request_time self) (t # ts)"
    by (rule spaced_Cons)
  moreover have "gated_calls (x # sched) self w = (map Inr (t # ts), self', w')"
    by (simp add: x wr gc)
  ultimately show ?case using len by (intro exI [of _ "t # ts"]) auto 
qed

lemma gated_calls_last:
  assumes "\<forall>(late, busy) \<in> set sched. 0 \<le> late"
  shows "\<exists>rs self' w'. gated_calls sched self w = (rs, self', w')
           \<and> Inr (last_request_time self') = last (Inr (last_request_time self) # rs)"
  using assms
proof (induction sched arbitrary: self w)
  case Nil
  show ?case by simp
next
  case (Cons x sched)
  obtain late busy where x: "x = (late, busy)" by (cases x)
  with Cons.prems have late: "0 \<le> late" and rest: "\<forall>(late, busy) \<in> set sched. 0 \<le> late"
    by auto
  from wrapper_probe [OF late, of self busy w] obtain t self1 w1 where
    wr: "wrapper late self (probe busy) () w = (Inr t, self1, w1)" and
    l: "last_request_time self1 = t"
    by blast
  from Cons.IH [OF rest, of self1 w1] obtain rs self' w' where
    gc: "gated_calls sched self1 w1 = (rs, self', w')" and
    la: "Inr (last_request_time self') = last (Inr (last_request_time self1) # rs)"
    by blast
  show ?case by (simp add: x wr gc la l)
qed

text \<open>
  C3: take any limiter and any sequence of \<open>N\<close> gated calls on it, in each of which the
  time that passes inside \<open>wait\<close> beyond the requested sleep is not negative. Then no
  call raises, every call yields its effective start time, any two start times with
  \<open>i \<le> j\<close> are at least \<open>(j - i) * min_delay\<close> apart, and so the span from the first
  start to the \<open>N\<close>-th is at least \<open>(N - 1) * min_delay\<close>. After the sequence
  \<open>last_request_time\<close> is the start time of the last call: \<open>wait\<close> stores the clock
  reading taken after the sleep. The bound holds for every \<open>min_delay\<close>, in particular
  for every \<open>min_delay \<ge> 0\<close>.
\<close>

theorem rate_limiter_span:
  assumes "\<forall>(late, busy) \<in> set sched. 0 \<le> late"
  shows "\<exists>ts self' w'. gated_calls sched self w = (map Inr ts, self', w')
           \<and> length ts = length sched
           \<and> (\<forall>i j. i \<le> j \<and> j < length ts \<longrightarrow> real (j - i) * min_delay self \<le> ts ! j - ts ! i)
           \<and> (sched \<noteq> [] \<longrightarrow>
                (real (length sched) - 1) * min_delay self \<le> last ts - hd ts
                \<and> last_request_time self' = last ts)"
proof -
  from gated_calls_spaced [OF assms, of self w] obtain ts self' w' where
    gc: "gated_calls sched self w = (map Inr ts, self', w')" and
    len: "length ts = length sched" and
    sp: "spaced (min_delay self) (last_request_time self) ts"
    by blast
  from sp have pair:
    "\<forall>i j. i \<le> j \<and> j < length ts \<longrightarrow> real (j - i) * min_delay self \<le> ts ! j - ts ! i"
    by (simp add: spaced_def)
  have span: "(real (length sched) - 1) * min_delay self \<le> last ts - hd ts"
    and lrt: "last_request_time self' = last ts" if ne: "sched \<noteq> []"
  proof -
    from ne len have tne: "ts \<noteq> []" by auto
    then have n: "0 < length ts" by simp
    from pair n have "real (length ts - 1 - 0) * min_delay self \<le> ts ! (length ts - 1) - ts ! 0"
      by (intro pair [rule_format]) simp
    moreover from tne len have "real (length ts - 1 - 0) = real (length sched) - 1"
      by (cases ts) auto
    ultimately show "(real (length sched) - 1) * min_delay self \<le> last ts - hd ts"
      using tne by (simp add: hd_conv_nth last_conv_nth)
    from gated_calls_last [OF assms, of self w] obtain rs s2 w2 where
      a: "gated_calls sched self w = (rs, s2, w2)" and
      b: "Inr (last_request_time s2) = last (Inr (last_request_time self) # rs)"
      by blast
    from a gc have "rs = map Inr ts" and "s2 = self'" by simp_all
    with b tne show "last_request_time self' = last ts"
      by (simp add: last_map)
  qed
  from gc len pair span lrt show ?thesis by blast
qed

theorem rate_limiter_span_witness:
  "gated_calls [(0 :: real, 1/5 :: real), (1/10, 0), (0, 3)] (RateLimiter_init 1)
        \<lparr>clock = 1700000000, sleeps = []\<rparr>
      = ([Inr 1700000000, Inr (1700000000 + 11/10), Inr (1700000000 + 21/10)],
         \<lparr>min_delay = 1, last_request_time = 1700000000 + 21/10\<rparr>,
         \<lparr>clock = 1700000003 + 21/10, sleeps = [4/5, 1]\<rparr>)
   \<and> (\<exists>ts self' w'.
         gated_calls [(0 :: real, 1/5 :: real), (1/10, 0), (0, 3)] (RateLimiter_init 1)
            \<lparr>clock = 1700000000, sleeps = []\<rparr> = (map Inr ts, self', w')
         \<and> (real (length [(0 :: real, 1/5 :: real), (1/10, 0), (0, 3)]) - 1)
              * min_delay (RateLimiter_init 1) \<le> last ts - hd ts)"
proof -
  have h: "\<forall>(late, busy) \<in> set [(0 :: real, 1/5 :: real), (1/10, 0), (0, 3)]. 0 \<le> late"
    by simp
  have run: "gated_calls [(0 :: real, 1/5 :: real), (1/10, 0), (0, 3)] (RateLimiter_init 1)
        \<lparr>clock = 1700000000, sleeps = []\<rparr>
      = ([Inr 1700000000, Inr (1700000000 + 11/10), Inr (1700000000 + 21/10)],
         \<lparr>min_delay = 1, last_request_time = 1700000000 + 21/10\<rparr>,
         \<lparr>clock = 1700000003 + 21/10, sleeps = [4/5, 1]\<rparr>)"
    by (simp add: RateLimiter_init_def wrapper_def wait_def probe_def time_time_def
        time_sleep_def elapse_def)
  from rate_limiter_span [OF h, of "RateLimiter_init 1" "\<lparr>clock = 1700000000, sleeps = []\<rparr>"]
  have "\<exists>ts self' w'.
         gated_calls [(0 :: real, 1/5 :: real), (1/10, 0), (0, 3)] (RateLimiter_init 1)
            \<lparr>clock = 1700000000, sleeps = []\<rparr> = (map Inr ts, self', w')
         \<and> (real (length [(0 :: real, 1/5 :: real), (1/10, 0), (0, 3)]) - 1)
              * min_delay (RateLimiter_init 1) \<le> last ts - hd ts"
    by blast
  with run show ?thesis by blast
qed

text \<open>
  C10: a new limiter has \<open>last_request_time = 0\<close>. When \<open>min_delay\<close> is at most the
  current clock reading, the first \<open>wait\<close> on a new limiter returns without a call of
  \<open>time.sleep\<close>: the list of sleeps is unchanged and the clock has moved only by the time
  \<open>late\<close> that the statements themselves took.
\<close>

theorem fresh_limiter_first_wait:
  "last_request_time (RateLimiter_init d) = 0
   \<and> (d \<le> time_time w \<longrightarrow>
        (\<exists>self1 w1. wait late (RateLimiter_init d) w = Inr (self1, w1)
            \<and> sleeps w1 = sleeps w
            \<and> clock w1 = clock w + late
            \<and> last_request_time self1 = clock w1
            \<and> min_delay self1 = d))"
  by (simp add: RateLimiter_init_def wait_def time_time_def elapse_def Let_def)

theorem fresh_limiter_first_wait_witness:
  "(1 :: real) \<le> time_time \<lparr>clock = 1700000000, sleeps = []\<rparr>
   \<and> (\<exists>self1 w1. wait 0 (RateLimiter_init 1) \<lparr>clock = 1700000000, sleeps = []\<rparr> = Inr (self1, w1)
            \<and> sleeps w1 = []
            \<and> clock w1 = 1700000000
            \<and> last_request_time self1 = 1700000000)"
proof -
  have h: "(1 :: real) \<le> time_time \<lparr>clock = 1700000000, sleeps = []\<rparr>"
    by (simp add: time_time_def)
  from fresh_limiter_first_wait [of 1 "\<lparr>clock = 1700000000, sleeps = []\<rparr>" 0] h
  show ?thesis by auto
qed

section \<open>Properties of the bounded waits\<close>

text \<open>
  C6, as stated: the four functions return \<open>None\<close> or the empty list on timeout and
  on a missing element, and only unrecoverable session errors propagate as exceptions.
  The last part is false on the code: \<open>safe_find_element\<close> and
  \<open>safe_find_elements\<close> catch \<open>NoSuchElementException\<close> only, so on a live session
  whose page does not answer in time the \<open>TimeoutException\<close> of the driver leaves both
  of them, and it is not a session error.
\<close>

theorem safe_find_lets_timeout_propagate:
  "safe_find_element unresponsive_page ''id'' ''price'' = Inl TimeoutException
   \<and> safe_find_elements unresponsive_page ''id'' ''price'' = Inl TimeoutException
   \<and> \<not> session_error TimeoutException"
  by (simp add: safe_find_element_def safe_find_elements_def unresponsive_page_def)

text \<open>
  C6, amended: \<open>wait_for_element\<close> and \<open>wait_for_clickable\<close> return \<open>None\<close> when
  the wait of the driver ends in \<open>TimeoutException\<close>; \<open>safe_find_element\<close> returns
  \<open>None\<close> when the driver raises \<open>NoSuchElementException\<close>; \<open>safe_find_elements\<close>
  returns the empty list when the driver finds nothing or raises
  \<open>NoSuchElementException\<close>. None of the four ever raises the one exception it
  catches. Every other exception propagates: an exception leaves one of the four exactly
  when the driver raised it and it is not the one that function catches, whether it is a
  session error or not.
\<close>

theorem bounded_waits_return_sentinels:
  "(until_presence d b v t = Inl TimeoutException \<longrightarrow> wait_for_element d b v t = Inr None)
   \<and> (until_clickable d b v t = Inl TimeoutException \<longrightarrow> wait_for_clickable d b v t = Inr None)
   \<and> (find_element d b v = Inl NoSuchElementException \<longrightarrow> safe_find_element d b v = Inr None)
   \<and> (find_elements d b v = Inr [] \<or> find_elements d b v = Inl NoSuchElementException
        \<longrightarrow> safe_find_elements d b v = Inr [])
   \<and> wait_for_element d b v t \<noteq> Inl TimeoutException
   \<and> wait_for_clickable d b v t \<noteq> Inl TimeoutException
   \<and> safe_find_element d b v \<noteq> Inl NoSuchElementException
   \<and> safe_find_elements d b v \<noteq> Inl NoSuchElementException
   \<and> (wait_for_element d b v t = Inl e
        \<longleftrightarrow> until_presence d b v t = Inl e \<and> e \<noteq> TimeoutException)
   \<and> (wait_for_clickable d b v t = Inl e
        \<longleftrightarrow> until_clickable d b v t = Inl e \<and> e \<noteq> TimeoutException)
   \<and> (safe_find_element d b v = Inl e
        \<longleftrightarrow> find_element d b v = Inl e \<and> e \<noteq> NoSuchElementException)
   \<and> (safe_find_elements d b v = Inl e
        \<longleftrightarrow> find_elements d b v = Inl e \<and> e \<noteq> NoSuchElementException)"
proof -
  have we: "wait_for_element d b v t = Inl x
      \<longleftrightarrow> until_presence d b v t = Inl x \<and> x \<noteq> TimeoutException" for x
    by (auto simp: wait_for_element_def split: sum.splits exn.splits)
  have wc: "wait_for_clickable d b v t = Inl x
      \<longleftrightarrow> until_clickable d b v t = Inl x \<and> x \<noteq> TimeoutException" for x
    by (auto simp: wait_for_clickable_def split: sum.splits exn.splits)
  have fe: "safe_find_element d b v = Inl x
      \<longleftrightarrow> find_element d b v = Inl x \<and> x \<noteq> NoSuchElementException" for x
    by (auto simp: safe_find_element_def split: sum.splits exn.splits)
  have fs: "safe_find_elements d b v = Inl x
      \<longleftrightarrow> find_elements d b v = Inl x \<and> x \<noteq> NoSuchElementException" for x
    by (auto simp: safe_find_elements_def split: sum.splits exn.splits)
  have s1: "until_presence d b v t = Inl TimeoutException \<longrightarrow> wait_for_element d b v t = Inr None"
    by (simp add: wait_for_element_def)
  have s2: "until_clickable d b v t = Inl TimeoutException \<longrightarrow> wait_for_clickable d b v t = Inr None"
    by (simp add: wait_for_clickable_def)
  have s3: "find_element d b v = Inl NoSuchElementException \<longrightarrow> safe_find_element d b v = Inr None"
    by (simp add: safe_find_element_def)
  have s4: "find_elements d b v = Inr [] \<or> find_elements d b v = Inl NoSuchElementException
        \<longrightarrow> safe_find_elements d b v = Inr []"
    by (auto simp: safe_find_elements_def)
  from we wc fe fs s1 s2 s3 s4 show ?thesis by blast
qed

theorem bounded_waits_return_sentinels_witness:
  "wait_for_element
      \<lparr>until_presence = \<lambda>_ _ _. Inl TimeoutException, until_clickable = \<lambda>_ _ _. Inl TimeoutException,
       find_element = \<lambda>_ _. Inl NoSuchElementException, find_elements = \<lambda>_ _. Inr ([] :: unit list)\<rparr>
      ''id'' ''price'' 10 = Inr None
   \<and> wait_for_clickable
      \<lparr>until_presence = \<lambda>_ _ _. Inl TimeoutException, until_clickable = \<lambda>_ _ _. Inl TimeoutException,
       find_element = \<lambda>_ _. Inl NoSuchElementException, find_elements = \<lambda>_ _. Inr ([] :: unit list)\<rparr>
      ''id'' ''price'' 10 = Inr None
   \<and> safe_find_element
      \<lparr>until_presence = \<lambda>_ _ _. Inl TimeoutException, until_clickable = \<lambda>_ _ _. Inl TimeoutException,
       find_element = \<lambda>_ _. Inl NoSuchElementException, find_elements = \<lambda>_ _. Inr ([] :: unit list)\<rparr>
      ''id'' ''price'' = Inr None
   \<and> safe_find_elements
      \<lparr>until_presence = \<lambda>_ _ _. Inl TimeoutException, until_clickable = \<lambda>_ _ _. Inl TimeoutException,
       find_element = \<lambda>_ _. Inl NoSuchElementException, find_elements = \<lambda>_ _. Inr ([] :: unit list)\<rparr>
      ''id'' ''price'' = Inr []
   \<and> wait_for_element
      \<lparr>until_presence = \<lambda>_ _ _. Inl (WebDriverException ''invalid session id''),
       until_clickable = \<lambda>_ _ _. Inl (WebDriverException ''invalid session id''),
       find_element = \<lambda>_ _. Inl (WebDriverException ''invalid session id''),
       find_elements = \<lambda>_ _. Inl (WebDriverException ''invalid session id'') :: exn + unit list\<rparr>
      ''id'' ''price'' 10 = Inl (WebDriverException ''invalid session id'')"
  using
    bounded_waits_return_sentinels [of
      "\<lparr>until_presence = \<lambda>_ _ _. Inl TimeoutException, until_clickable = \<lambda>_ _ _. Inl TimeoutException,
       find_element = \<lambda>_ _. Inl NoSuchElementException, find_elements = \<lambda>_ _. Inr ([] :: unit list)\<rparr>"
      "''id''" "''price''" 10]
    bounded_waits_return_sentinels [of
      "\<lparr>until_presence = \<lambda>_ _ _. Inl (WebDriverException ''invalid session id''),
       until_clickable = \<lambda>_ _ _. Inl (WebDriverException ''invalid session id''),
       find_element = \<lambda>_ _. Inl (WebDriverException ''invalid session id''),
       find_elements = \<lambda>_ _. Inl (WebDriverException ''invalid session id'') :: exn + unit list\<rparr>"
      "''id''" "''price''" 10 "WebDriverException ''invalid session id''"]
  by simp

section \<open>Properties of the scrapers\<close>

text \<open>
  C2, as stated: for every scraper and every query whose \<open>check_in\<close> is not before its
  \<open>check_out\<close>, \<open>scrape_rates\<close> fails with \<open>InvalidQuery\<close>. This is false on the
  code: for \<open>check_in = "2025-06-05"\<close> and \<open>check_out = "2025-06-01"\<close> the Booking
  scraper raises \<open>NotImplementedError\<close>, which is not \<open>InvalidQuery\<close>.
\<close>

theorem scrape_rates_reversed_dates_not_invalid_query:
  "fst (scrape_rates BookingScraper ''Grand Hotel'' ''2025-06-05'' ''2025-06-01'' 2 ()
          :: (exn + unit) \<times> unit)
     = Inl (NotImplementedError ''Booking.com scraper not yet implemented'')
   \<and> fst (scrape_rates BookingScraper ''Grand Hotel'' ''2025-06-05'' ''2025-06-01'' 2 ()
          :: (exn + unit) \<times> unit)
     \<noteq> Inl InvalidQuery"
  by (simp add: BookingScraper_scrape_rates_def)

text \<open>
  C2, amended: for every scraper and every query, valid or not, \<open>scrape_rates\<close> fails
  with \<open>NotImplementedError\<close>, and the state outside the call (browser sessions and
  network included) is as it was before the call.
\<close>

theorem scrape_rates_not_implemented:
  "\<exists>msg. scrape_rates variant h check_in check_out adults w = (Inl (NotImplementedError msg), w)"
  by (cases variant)
     (simp_all add: BookingScraper_scrape_rates_def ExpediaScraper_scrape_rates_def
        AgodaScraper_scrape_rates_def TripScraper_scrape_rates_def)

end
